theory Spec2Isabelle
  imports Main
begin

section \<open>The task runner of src/task/TaskRunner.ts\<close>

text \<open>
  The runner polls a queue service for a task, hands the task to a worker and reports the
  outcome back with a bounded retry. The queue service (\<open>taskResource\<close>), the worker, the
  logger, the error callback and the timer are collaborators the runner is constructed
  with. They are modelled as follows.
  \<^item> Every call to a collaborator appends one \<open>event\<close> to the \<open>trace\<close> of the state.
  \<^item> The promises of \<open>taskResource.poll\<close>, \<open>worker.execute\<close> and
    \<open>taskResource.updateTask1\<close> settle as the environment says: the \<open>k\<close>-th call of
    each is answered by the \<open>k\<close>-th entry of its script, \<open>Inl\<close> a rejection with the
    rejected value, \<open>Inr\<close> a resolution.
  \<^item> The logger and the error callback are injected functions, called with nothing
    around the call, so a call may throw. The environment answers each call from the
    trace before the call and the call's arguments: \<open>Inl c\<close> when the function throws
    \<open>c\<close>, \<open>Inr ()\<close> when it returns, as the defaults \<open>noopLogger\<close> and
    \<open>noopErrorHandler\<close> always do.
  \<^item> A completion of the runner's own code is a value of \<open>js_value + 'a\<close>, \<open>Inl\<close> a
    thrown value (for an \<open>async\<close> function: the rejection of its promise).
\<close>

subsection \<open>Values\<close>

text \<open>
  A caught value has the TypeScript type \<open>unknown\<close>. The runner reads at most the
  properties \<open>message\<close> and \<open>stack\<close> of it, so a value is \<open>undefined\<close>, \<open>null\<close>, or a
  value whose properties can be read (\<open>JSObject\<close>), given by what these two reads return:
  \<open>None\<close> for an absent (or nullish) property.
\<close>

datatype js_value =
    JSUndefined
  | JSNull
  | JSObject (obj_message: "string option") (obj_stack: "string option")

text \<open>\<open>new Error(msg)\<close>; of the stack the engine attaches only the first line is kept.\<close>

definition new_Error :: "string \<Rightarrow> js_value" where
  "new_Error msg = JSObject (Some msg) (Some (''Error: '' @ msg))"

text \<open>
  The \<open>TypeError\<close> the engine throws for the read of property \<open>p\<close> on \<open>undefined\<close> or
  \<open>null\<close>. The wording of its message is the engine's; the text here stands for it.
\<close>

definition TypeError_property_of_nullish :: "string \<Rightarrow> js_value" where
  "TypeError_property_of_nullish p =
     JSObject (Some (''Cannot read properties of undefined or null (reading '' @ p @ '')''))
              (Some ''TypeError'')"

text \<open>\<open>v.message\<close> and \<open>v.stack\<close>: a property read raises on a nullish value.\<close>

fun read_message :: "js_value \<Rightarrow> js_value + string option" where
  "read_message JSUndefined = Inl (TypeError_property_of_nullish ''message'')"
| "read_message JSNull = Inl (TypeError_property_of_nullish ''message'')"
| "read_message (JSObject m st) = Inr m"

fun read_stack :: "js_value \<Rightarrow> js_value + string option" where
  "read_stack JSUndefined = Inl (TypeError_property_of_nullish ''stack'')"
| "read_stack JSNull = Inl (TypeError_property_of_nullish ''stack'')"
| "read_stack (JSObject m st) = Inr st"

text \<open>\<open>v?.message\<close>: optional chaining gives \<open>undefined\<close> on a nullish value.\<close>

fun optional_message :: "js_value \<Rightarrow> string option" where
  "optional_message JSUndefined = None"
| "optional_message JSNull = None"
| "optional_message (JSObject m st) = m"

text \<open>\<open>a ?? b\<close>.\<close>

fun nullish_coalesce :: "string option \<Rightarrow> string \<Rightarrow> string" where
  "nullish_coalesce None d = d"
| "nullish_coalesce (Some x) d = x"

text \<open>Truthiness of an optional string: absent and the empty string are falsy.\<close>

fun truthy :: "string option \<Rightarrow> bool" where
  "truthy None = False"
| "truthy (Some x) = (x \<noteq> [])"

text \<open>A template literal prints an absent string as \<open>undefined\<close>, a number in decimal.\<close>

fun template_str :: "string option \<Rightarrow> string" where
  "template_str None = ''undefined''"
| "template_str (Some x) = x"

definition digit :: "nat \<Rightarrow> char" where
  "digit d = ''0123456789'' ! d"

fun template_num :: "nat \<Rightarrow> string" where
  "template_num n = (if n < 10 then [digit n] else template_num (n div 10) @ [digit (n mod 10)])"

declare template_num.simps [simp del]

datatype json = JNull | JBool bool | JNum int | JStr string

type_synonym payload = "(string \<times> json) list"

text \<open>
  \<open>Task\<close> and \<open>TaskResult\<close> are declared in \<open>common/open-api\<close>; the fields are those
  the runner and the specification name. Both carry the two identifiers, optional in a
  \<open>Task\<close> (the source asserts them with \<open>!\<close>, which compiles to nothing).
\<close>

record ids =
  workflowInstanceId :: "string option"
  taskId :: "string option"

record task = ids +
  inputData :: payload

record task_result = ids +
  status :: "string option"
  outputData :: "payload option"
  reasonForIncompletion :: "string option"

definition DEFAULT_ERROR_MESSAGE :: string where
  "DEFAULT_ERROR_MESSAGE = ''An unknown error occurred''"

definition MAX_RETRIES :: nat where
  "MAX_RETRIES = 3"

subsection \<open>Runner, environment and state\<close>

text \<open>\<open>worker.taskDefName\<close> and the \<open>options\<close> the runner reads.\<close>

record config =
  taskDefName :: string
  workerID :: string
  domain :: "string option"
  pollInterval :: nat

datatype event =
    PollCall string string "string option"
  | ExecuteCall task
  | UpdateCall task_result
  | ErrorCallback js_value "task option"
  | LogDebug string
  | LogError string "js_value list"
  | Sleep nat

text \<open>
  \<open>stop_req k\<close>: \<open>stopPolling\<close> is called by the host while the runner is suspended in its
  \<open>k\<close>-th cycle. The loop reads the flag at its head only, so the call takes effect in
  the model when the cycle's sleep ends.
\<close>

record env =
  poll_resp :: "nat \<Rightarrow> js_value + task option"
  execute_resp :: "nat \<Rightarrow> js_value + task_result"
  update_resp :: "nat \<Rightarrow> js_value + unit"
  stop_req :: "nat \<Rightarrow> bool"
  onError_resp :: "event list \<Rightarrow> js_value \<Rightarrow> task option \<Rightarrow> js_value + unit"
  logger_error_resp :: "event list \<Rightarrow> string \<Rightarrow> js_value list \<Rightarrow> js_value + unit"
  logger_debug_resp :: "event list \<Rightarrow> string \<Rightarrow> js_value + unit"

record state =
  isPolling :: bool
  trace :: "event list"
  polls :: nat
  executes :: nat
  updates :: nat
  cycles :: nat

type_synonym 'a action = "state \<Rightarrow> (js_value + 'a) \<times> state"

text \<open>Sequencing (\<open>a; b\<close> and \<open>await\<close>) and \<open>try { a } catch (e) { h }\<close>.\<close>

definition and_then :: "'a action \<Rightarrow> ('a \<Rightarrow> 'b action) \<Rightarrow> 'b action" where
  "and_then a f s = (case a s of (Inl e, s') \<Rightarrow> (Inl e, s') | (Inr x, s') \<Rightarrow> f x s')"

definition try_catch :: "'a action \<Rightarrow> (js_value \<Rightarrow> 'a action) \<Rightarrow> 'a action" where
  "try_catch a h s = (case a s of (Inl e, s') \<Rightarrow> h e s' | (Inr x, s') \<Rightarrow> (Inr x, s'))"

definition emit :: "event \<Rightarrow> unit action" where
  "emit ev s = (Inr (), s\<lparr>trace := trace s @ [ev]\<rparr>)"

text \<open>
  \<open>this.logger.debug\<close>, \<open>this.logger.error\<close> and \<open>this.errorHandler\<close>: the call is
  recorded, and it returns or throws as the environment says.
\<close>

definition logger_debug :: "env \<Rightarrow> string \<Rightarrow> unit action" where
  "logger_debug en msg s =
     (logger_debug_resp en (trace s) msg, s\<lparr>trace := trace s @ [LogDebug msg]\<rparr>)"

definition logger_error :: "env \<Rightarrow> string \<Rightarrow> js_value list \<Rightarrow> unit action" where
  "logger_error en msg args s =
     (logger_error_resp en (trace s) msg args, s\<lparr>trace := trace s @ [LogError msg args]\<rparr>)"

definition errorHandler :: "env \<Rightarrow> js_value \<Rightarrow> task option \<Rightarrow> unit action" where
  "errorHandler en error t s =
     (onError_resp en (trace s) error t, s\<lparr>trace := trace s @ [ErrorCallback error t]\<rparr>)"

text \<open>\<open>await new Promise((r) => setTimeout(() => r(true), ms))\<close>.\<close>

definition sleep :: "nat \<Rightarrow> unit action" where
  "sleep ms = emit (Sleep ms)"

definition taskResource_poll :: "env \<Rightarrow> config \<Rightarrow> task option action" where
  "taskResource_poll en cfg s =
     (poll_resp en (polls s),
      s\<lparr>polls := polls s + 1,
        trace := trace s @ [PollCall (taskDefName cfg) (workerID cfg) (domain cfg)]\<rparr>)"

definition worker_execute :: "env \<Rightarrow> task \<Rightarrow> task_result action" where
  "worker_execute en t s =
     (execute_resp en (executes s),
      s\<lparr>executes := executes s + 1, trace := trace s @ [ExecuteCall t]\<rparr>)"

definition taskResource_updateTask1 :: "env \<Rightarrow> task_result \<Rightarrow> unit action" where
  "taskResource_updateTask1 en r s =
     (update_resp en (updates s),
      s\<lparr>updates := updates s + 1, trace := trace s @ [UpdateCall r]\<rparr>)"

subsection \<open>updateTaskWithRetry\<close>

text \<open>The \<open>while (retryCount < MAX_RETRIES)\<close> loop, from a given \<open>retryCount\<close>.\<close>

function update_loop :: "env \<Rightarrow> task \<Rightarrow> task_result \<Rightarrow> nat \<Rightarrow> unit action" where
  "update_loop en t taskResult retryCount s =
     (if retryCount < MAX_RETRIES then
        (case taskResource_updateTask1 en taskResult s of
           (Inr u, s1) \<Rightarrow> (Inr (), s1)
         | (Inl error, s1) \<Rightarrow>
             (case and_then (errorHandler en error (Some t)) (\<lambda>_.
                   and_then (logger_error en
                       (''Error updating task '' @ template_str (taskId taskResult) @
                        '' on retry '' @ template_num retryCount) [error]) (\<lambda>_.
                   sleep ((retryCount + 1) * 10))) s1 of
                (Inl e, s2) \<Rightarrow> (Inl e, s2)
              | (Inr u, s2) \<Rightarrow> update_loop en t taskResult (retryCount + 1) s2))
      else
        logger_error en (''Unable to update task '' @ template_str (taskId taskResult) @
                      '' after '' @ template_num retryCount @ '' retries'') [] s)"
  by pat_completeness auto
termination
  by (relation "measure (\<lambda>(en, t, taskResult, retryCount, s). MAX_RETRIES - retryCount)") auto

declare update_loop.simps [simp del]

definition updateTaskWithRetry :: "env \<Rightarrow> task \<Rightarrow> task_result \<Rightarrow> unit action" where
  "updateTaskWithRetry en t taskResult = update_loop en t taskResult 0"

subsection \<open>executeTask\<close>

definition executeTask :: "env \<Rightarrow> config \<Rightarrow> task \<Rightarrow> unit action" where
  "executeTask en cfg t =
     try_catch
       (and_then (worker_execute en t) (\<lambda>result.
        and_then (updateTaskWithRetry en t
            (result\<lparr>workflowInstanceId := workflowInstanceId t, taskId := taskId t\<rparr>)) (\<lambda>_.
        logger_debug en (''Finished polling for task '' @ template_str (taskId t)))))
       (\<lambda>error.
        and_then (updateTaskWithRetry en t
            \<lparr>workflowInstanceId = workflowInstanceId t,
             taskId = taskId t,
             status = Some ''FAILED'',
             outputData = Some [],
             reasonForIncompletion =
               Some (nullish_coalesce (optional_message error) DEFAULT_ERROR_MESSAGE)\<rparr>) (\<lambda>_.
        and_then (errorHandler en error (Some t)) (\<lambda>_.
        logger_error en (''Error executing '' @ template_str (taskId t)) [error])))"

subsection \<open>handleUnknownError\<close>

text \<open>
  \<open>message\<close> and \<open>stack\<close> start as the empty string and are overwritten by a truthy
  property of the caught value; the property reads are unguarded.
\<close>

definition handleUnknownError :: "env \<Rightarrow> config \<Rightarrow> js_value \<Rightarrow> unit action" where
  "handleUnknownError en cfg unknownError s =
     (case read_stack unknownError of
        Inl e \<Rightarrow> (Inl e, s)
      | Inr st \<Rightarrow>
          (let stack = (if truthy st then template_str st else [])
           in case read_message unknownError of
                Inl e \<Rightarrow> (Inl e, s)
              | Inr m \<Rightarrow>
                  (let message = (if truthy m then template_str m else [])
                   in logger_error en
                        (''Error for '' @ taskDefName cfg @ '': error: '' @ message @
                         '', stack: '' @ stack) [] s)))"

subsection \<open>The poll loop\<close>

text \<open>The sleep that ends a cycle; a \<open>stopPolling\<close> of the host during the cycle lands here.\<close>

definition poll_sleep :: "env \<Rightarrow> config \<Rightarrow> unit action" where
  "poll_sleep en cfg s =
     (Inr (),
      s\<lparr>isPolling := (if stop_req en (cycles s) then False else isPolling s),
        cycles := cycles s + 1,
        trace := trace s @ [Sleep (pollInterval cfg)]\<rparr>)"

text \<open>
  One pass through the body of \<open>while (this.isPolling)\<close>. The test
  \<open>task && task.taskId\<close> holds for a task whose identifier is a non-empty string.
\<close>

definition poll_cycle :: "env \<Rightarrow> config \<Rightarrow> unit action" where
  "poll_cycle en cfg =
     and_then
       (try_catch
          (and_then (taskResource_poll en cfg) (\<lambda>polled.
             case polled of
               None \<Rightarrow> logger_debug en (''No tasks for '' @ taskDefName cfg)
             | Some t \<Rightarrow>
                 if truthy (taskId t) then executeTask en cfg t
                 else logger_debug en (''No tasks for '' @ taskDefName cfg)))
          (\<lambda>unknownError.
             and_then (handleUnknownError en cfg unknownError) (\<lambda>_.
             errorHandler en unknownError None)))
       (\<lambda>_. poll_sleep en cfg)"

text \<open>
  The loop runs for as long as the flag is set, so it is given fuel: the number of cycles
  it may still make. \<open>Running\<close> is the loop still polling when the fuel is spent.
\<close>

datatype outcome = Returned | Raised js_value | Running

fun poll :: "env \<Rightarrow> config \<Rightarrow> nat \<Rightarrow> state \<Rightarrow> outcome \<times> state" where
  "poll en cfg 0 s = (if isPolling s then (Running, s) else (Returned, s))"
| "poll en cfg (Suc n) s =
     (if isPolling s then
        (case poll_cycle en cfg s of
           (Inl e, s') \<Rightarrow> (Raised e, s')
         | (Inr u, s') \<Rightarrow> poll en cfg n s')
      else (Returned, s))"

text \<open>
  \<open>startPolling\<close> throws when the runner is polling, and otherwise sets the flag and
  returns the promise of \<open>poll\<close>; both ways of failing are \<open>Raised\<close> here.
\<close>

definition startPolling :: "env \<Rightarrow> config \<Rightarrow> nat \<Rightarrow> state \<Rightarrow> outcome \<times> state" where
  "startPolling en cfg n s =
     (if isPolling s then (Raised (new_Error ''Runner is already started''), s)
      else poll en cfg n (s\<lparr>isPolling := True\<rparr>))"

definition stopPolling :: "state \<Rightarrow> state" where
  "stopPolling s = s\<lparr>isPolling := False\<rparr>"

text \<open>A runner as constructed: \<open>isPolling = false\<close>, nothing called yet.\<close>

definition initial :: state where
  "initial = \<lparr>isPolling = False, trace = [], polls = 0, executes = 0, updates = 0, cycles = 0\<rparr>"

subsection \<open>Inputs of the examples\<close>

text \<open>The task, the worker's result and the error of the specification's examples.\<close>

definition task_t1 :: task where
  "task_t1 = \<lparr>workflowInstanceId = Some ''w1'', taskId = Some ''t1'', inputData = []\<rparr>"

definition result_completed :: task_result where
  "result_completed =
     \<lparr>workflowInstanceId = None, taskId = None, status = Some ''COMPLETED'',
      outputData = Some [(''x'', JNum 1)], reasonForIncompletion = None\<rparr>"

definition cfg_example :: config where
  "cfg_example =
     \<lparr>taskDefName = ''job'', workerID = ''worker-1'', domain = None, pollInterval = 100\<rparr>"

text \<open>
  A queue service that hands out \<open>task_t1\<close> and rejects every update, with a worker that
  throws \<open>new Error("boom")\<close>; the host stops the runner during the first cycle. In this
  and the next four environments the logger and the error callback return normally.
\<close>

definition env_update_down :: env where
  "env_update_down =
     \<lparr>poll_resp = (\<lambda>k. Inr (Some task_t1)),
      execute_resp = (\<lambda>k. Inl (new_Error ''boom'')),
      update_resp = (\<lambda>k. Inl (new_Error ''down'')),
      stop_req = (\<lambda>k. True),
      onError_resp = (\<lambda>tr e t. Inr ()),
      logger_error_resp = (\<lambda>tr msg args. Inr ()),
      logger_debug_resp = (\<lambda>tr msg. Inr ())\<rparr>"

text \<open>A worker that throws \<open>e\<close> on \<open>task_t1\<close>; every update is accepted.\<close>

definition env_worker_throws :: "js_value \<Rightarrow> env" where
  "env_worker_throws e =
     \<lparr>poll_resp = (\<lambda>k. Inr (Some task_t1)),
      execute_resp = (\<lambda>k. Inl e),
      update_resp = (\<lambda>k. Inr ()),
      stop_req = (\<lambda>k. True),
      onError_resp = (\<lambda>tr e t. Inr ()),
      logger_error_resp = (\<lambda>tr msg args. Inr ()),
      logger_debug_resp = (\<lambda>tr msg. Inr ())\<rparr>"

text \<open>A worker that resolves with \<open>result_completed\<close> on \<open>task_t1\<close>.\<close>

definition env_worker_completes :: env where
  "env_worker_completes =
     \<lparr>poll_resp = (\<lambda>k. Inr (Some task_t1)),
      execute_resp = (\<lambda>k. Inr result_completed),
      update_resp = (\<lambda>k. Inr ()),
      stop_req = (\<lambda>k. True),
      onError_resp = (\<lambda>tr e t. Inr ()),
      logger_error_resp = (\<lambda>tr msg args. Inr ()),
      logger_debug_resp = (\<lambda>tr msg. Inr ())\<rparr>"

text \<open>A queue service whose \<open>poll\<close> rejects with \<open>e\<close> every time.\<close>

definition env_poll_rejects :: "js_value \<Rightarrow> env" where
  "env_poll_rejects e =
     \<lparr>poll_resp = (\<lambda>k. Inl e),
      execute_resp = (\<lambda>k. Inr result_completed),
      update_resp = (\<lambda>k. Inr ()),
      stop_req = (\<lambda>k. k = 1),
      onError_resp = (\<lambda>tr e t. Inr ()),
      logger_error_resp = (\<lambda>tr msg args. Inr ()),
      logger_debug_resp = (\<lambda>tr msg. Inr ())\<rparr>"

text \<open>
  A queue service with no work: the first poll resolves with no task, the later ones with
  a task whose identifier is the empty string. The host stops the runner during the
  second cycle.
\<close>

definition env_idle :: env where
  "env_idle =
     \<lparr>poll_resp = (\<lambda>k. if k = 0 then Inr None
                        else Inr (Some (task_t1\<lparr>taskId := Some []\<rparr>))),
      execute_resp = (\<lambda>k. Inr result_completed),
      update_resp = (\<lambda>k. Inr ()),
      stop_req = (\<lambda>k. k = 1),
      onError_resp = (\<lambda>tr e t. Inr ()),
      logger_error_resp = (\<lambda>tr msg args. Inr ()),
      logger_debug_resp = (\<lambda>tr msg. Inr ())\<rparr>"

text \<open>
  An error callback that throws \<open>new Error("cb")\<close> on every call, with a worker that
  resolves with \<open>result_completed\<close> and a queue service that rejects every update.
\<close>

definition env_onError_throws :: env where
  "env_onError_throws =
     \<lparr>poll_resp = (\<lambda>k. Inr (Some task_t1)),
      execute_resp = (\<lambda>k. Inr result_completed),
      update_resp = (\<lambda>k. Inl (new_Error ''down'')),
      stop_req = (\<lambda>k. True),
      onError_resp = (\<lambda>tr e t. Inl (new_Error ''cb'')),
      logger_error_resp = (\<lambda>tr msg args. Inr ()),
      logger_debug_resp = (\<lambda>tr msg. Inr ())\<rparr>"

section \<open>Update with retry\<close>

lemma template_num_small: "n < 10 \<Longrightarrow> template_num n = [digit n]"
  by (simp add: template_num.simps)

text \<open>One pass of the loop, by the answer of the queue service.\<close>

lemma update_loop_ok:
  assumes "k < 3" and "update_resp en (updates s) = Inr u"
  shows "update_loop en t r k s =
           (Inr (), s\<lparr>updates := updates s + 1, trace := trace s @ [UpdateCall r]\<rparr>)"
  using assms
  by (subst update_loop.simps) (simp add: MAX_RETRIES_def taskResource_updateTask1_def)

lemma update_loop_failed:
  assumes "k < 3" and "update_resp en (updates s) = Inl e"
  shows "update_loop en t r k s =
    (case onError_resp en (trace s @ [UpdateCall r]) e (Some t) of
       Inl c \<Rightarrow> (Inl c, s\<lparr>updates := updates s + 1,
                          trace := trace s @ [UpdateCall r, ErrorCallback e (Some t)]\<rparr>)
     | Inr u \<Rightarrow>
        (case logger_error_resp en (trace s @ [UpdateCall r, ErrorCallback e (Some t)])
                (''Error updating task '' @ template_str (taskId r) @
                 '' on retry '' @ template_num k) [e] of
           Inl c \<Rightarrow> (Inl c, s\<lparr>updates := updates s + 1,
                          trace := trace s @
                            [UpdateCall r, ErrorCallback e (Some t),
                             LogError (''Error updating task '' @ template_str (taskId r) @
                                       '' on retry '' @ template_num k) [e]]\<rparr>)
         | Inr u \<Rightarrow>
             update_loop en t r (Suc k)
               (s\<lparr>updates := updates s + 1,
                  trace := trace s @
                    [UpdateCall r, ErrorCallback e (Some t),
                     LogError (''Error updating task '' @ template_str (taskId r) @
                               '' on retry '' @ template_num k) [e],
                     Sleep ((k + 1) * 10)]\<rparr>)))"
  using assms
  by (subst update_loop.simps)
     (simp add: MAX_RETRIES_def taskResource_updateTask1_def and_then_def errorHandler_def
        logger_error_def sleep_def emit_def split: sum.splits)

lemma update_loop_done:
  assumes "\<not> k < 3"
  shows "update_loop en t r k s =
     (logger_error_resp en (trace s)
        (''Unable to update task '' @ template_str (taskId r) @
         '' after '' @ template_num k @ '' retries'') [],
      s\<lparr>trace := trace s @
         [LogError (''Unable to update task '' @ template_str (taskId r) @
                    '' after '' @ template_num k @ '' retries'') []]\<rparr>)"
  using assms
  by (subst update_loop.simps) (simp add: MAX_RETRIES_def logger_error_def)

text \<open>The same with an error callback and a logger that return normally.\<close>

lemma update_loop_retry:
  assumes "k < 3" and "update_resp en (updates s) = Inl e"
      and "\<forall>tr e t. onError_resp en tr e t = Inr ()"
      and "\<forall>tr msg args. logger_error_resp en tr msg args = Inr ()"
  shows "update_loop en t r k s =
           update_loop en t r (Suc k)
             (s\<lparr>updates := updates s + 1,
                trace := trace s @
                  [UpdateCall r, ErrorCallback e (Some t),
                   LogError (''Error updating task '' @ template_str (taskId r) @
                             '' on retry '' @ template_num k) [e],
                   Sleep ((k + 1) * 10)]\<rparr>)"
  using assms by (simp add: update_loop_failed)

lemma update_loop_exhausted:
  assumes "\<not> k < 3"
      and "\<forall>tr msg args. logger_error_resp en tr msg args = Inr ()"
  shows "update_loop en t r k s =
           (Inr (), s\<lparr>trace := trace s @
              [LogError (''Unable to update task '' @ template_str (taskId r) @
                         '' after '' @ template_num k @ '' retries'') []]\<rparr>)"
  using assms by (simp add: update_loop_done)

lemma update_loop_returns:
  assumes "\<forall>tr e t. onError_resp en tr e t = Inr ()"
      and "\<forall>tr msg args. logger_error_resp en tr msg args = Inr ()"
  shows "fst (update_loop en t r k s) = Inr ()"
proof (induction "3 - k" arbitrary: k s)
  case 0
  then show ?case using assms by (simp add: update_loop_exhausted)
next
  case (Suc d)
  then have k: "k < 3" by simp
  have step: "\<And>s'. fst (update_loop en t r (Suc k) s') = Inr ()"
    using Suc by simp
  show ?case
  proof (cases "update_resp en (updates s)")
    case (Inl e)
    then show ?thesis using k step assms by (simp add: update_loop_retry)
  next
    case (Inr u)
    then show ?thesis using k by (simp add: update_loop_ok)
  qed
qed

lemmas update_loop_eval =
  update_loop_ok update_loop_retry update_loop_exhausted template_num_small digit_def

text \<open>
  Whatever the collaborators do, the loop only appends to the trace, every update call it
  makes carries the result record it was given, it makes at most \<open>3 - retryCount\<close>
  attempts, and from a \<open>retryCount\<close> below 3 its first event is an update call.
\<close>

lemma update_loop_events:
  "\<exists>evs. trace (snd (update_loop en t r k s)) = trace s @ evs \<and>
         (\<forall>r'. UpdateCall r' \<in> set evs \<longrightarrow> r' = r) \<and>
         updates (snd (update_loop en t r k s)) \<le> updates s + (3 - k)"
proof (induction "3 - k" arbitrary: k s)
  case 0
  then show ?case by (simp add: update_loop_done)
next
  case (Suc d)
  then have k: "k < 3" by simp
  show ?case
  proof (cases "update_resp en (updates s)")
    case (Inr u)
    then show ?thesis using k by (simp add: update_loop_ok)
  next
    case a: (Inl e)
    let ?log = "LogError (''Error updating task '' @ template_str (taskId r) @
                          '' on retry '' @ template_num k) [e]"
    show ?thesis
    proof (cases "onError_resp en (trace s @ [UpdateCall r]) e (Some t)")
      case (Inl c)
      then show ?thesis using k a by (simp add: update_loop_failed)
    next
      case b: (Inr u)
      show ?thesis
      proof (cases "logger_error_resp en (trace s @ [UpdateCall r, ErrorCallback e (Some t)])
                (''Error updating task '' @ template_str (taskId r) @
                 '' on retry '' @ template_num k) [e]")
        case (Inl c)
        then show ?thesis using k a b by (simp add: update_loop_failed)
      next
        case c: (Inr u')
        let ?s' = "s\<lparr>updates := updates s + 1,
                  trace := trace s @ [UpdateCall r, ErrorCallback e (Some t), ?log,
                                      Sleep ((k + 1) * 10)]\<rparr>"
        have step: "update_loop en t r k s = update_loop en t r (Suc k) ?s'"
          using k a b c by (simp add: update_loop_failed)
        have "d = 3 - Suc k" using Suc by simp
        from Suc(1) [OF this, of ?s']
        obtain evs where evs: "trace (snd (update_loop en t r (Suc k) ?s')) = trace ?s' @ evs"
          "\<forall>r'. UpdateCall r' \<in> set evs \<longrightarrow> r' = r"
          "updates (snd (update_loop en t r (Suc k) ?s')) \<le> updates ?s' + (3 - Suc k)"
          by blast
        show ?thesis unfolding step
          using evs k
          by (intro exI [of _ "[UpdateCall r, ErrorCallback e (Some t), ?log,
                                Sleep ((k + 1) * 10)] @ evs"]) auto
      qed
    qed
  qed
qed

lemma update_loop_first:
  assumes "k < 3"
  shows "\<exists>evs. trace (snd (update_loop en t r k s)) = trace s @ UpdateCall r # evs \<and>
         (\<forall>r'. UpdateCall r' \<in> set evs \<longrightarrow> r' = r)"
proof (cases "update_resp en (updates s)")
  case (Inr u)
  then show ?thesis using assms by (simp add: update_loop_ok)
next
  case a: (Inl e)
  let ?log = "LogError (''Error updating task '' @ template_str (taskId r) @
                        '' on retry '' @ template_num k) [e]"
  show ?thesis
  proof (cases "onError_resp en (trace s @ [UpdateCall r]) e (Some t)")
    case (Inl c)
    then show ?thesis using assms a by (simp add: update_loop_failed)
  next
    case b: (Inr u)
    show ?thesis
    proof (cases "logger_error_resp en (trace s @ [UpdateCall r, ErrorCallback e (Some t)])
              (''Error updating task '' @ template_str (taskId r) @
               '' on retry '' @ template_num k) [e]")
      case (Inl c)
      then show ?thesis using assms a b by (simp add: update_loop_failed)
    next
      case c: (Inr u')
      let ?s' = "s\<lparr>updates := updates s + 1,
                trace := trace s @ [UpdateCall r, ErrorCallback e (Some t), ?log,
                                    Sleep ((k + 1) * 10)]\<rparr>"
      have step: "update_loop en t r k s = update_loop en t r (Suc k) ?s'"
        using assms a b c by (simp add: update_loop_failed)
      obtain evs where evs: "trace (snd (update_loop en t r (Suc k) ?s')) = trace ?s' @ evs"
        "\<forall>r'. UpdateCall r' \<in> set evs \<longrightarrow> r' = r"
        using update_loop_events [of en t r "Suc k" ?s'] by blast
      show ?thesis unfolding step
        using evs
        by (intro exI [of _ "[ErrorCallback e (Some t), ?log, Sleep ((k + 1) * 10)] @ evs"])
           auto
    qed
  qed
qed

lemma updateTaskWithRetry_first:
  "\<exists>evs. trace (snd (updateTaskWithRetry en t r s)) = trace s @ UpdateCall r # evs \<and>
         (\<forall>r'. UpdateCall r' \<in> set evs \<longrightarrow> r' = r)"
  unfolding updateTaskWithRetry_def by (rule update_loop_first) simp

lemma updateTaskWithRetry_events:
  assumes q1: "\<forall>tr e t. onError_resp en tr e t = Inr ()"
      and q2: "\<forall>tr msg args. logger_error_resp en tr msg args = Inr ()"
  shows "\<exists>n evs. updateTaskWithRetry en t r s =
      (Inr (), s\<lparr>updates := updates s + n, trace := trace s @ UpdateCall r # evs\<rparr>) \<and>
      (\<forall>r'. UpdateCall r' \<in> set evs \<longrightarrow> r' = r)"
proof (cases "update_resp en (updates s)")
  case a: (Inr u)
  show ?thesis unfolding updateTaskWithRetry_def using a
    by (intro exI [of _ 1] exI [of _ "[]"]) (simp add: update_loop_eval)
next
  case a: (Inl e0)
  let ?f0 = "[ErrorCallback e0 (Some t),
              LogError (''Error updating task '' @ template_str (taskId r) @ '' on retry 0'') [e0],
              Sleep 10]"
  show ?thesis
  proof (cases "update_resp en (updates s + 1)")
    case b: (Inr u)
    show ?thesis unfolding updateTaskWithRetry_def using a b q1 q2
      by (intro exI [of _ 2] exI [of _ "?f0 @ [UpdateCall r]"]) (simp add: update_loop_eval)
  next
    case b: (Inl e1)
    let ?f1 = "[UpdateCall r, ErrorCallback e1 (Some t),
                LogError (''Error updating task '' @ template_str (taskId r) @ '' on retry 1'') [e1],
                Sleep 20]"
    show ?thesis
    proof (cases "update_resp en (updates s + 2)")
      case c: (Inr u)
      show ?thesis unfolding updateTaskWithRetry_def using a b c q1 q2
        by (intro exI [of _ 3] exI [of _ "?f0 @ ?f1 @ [UpdateCall r]"])
           (simp add: update_loop_eval)
    next
      case c: (Inl e2)
      show ?thesis unfolding updateTaskWithRetry_def using a b c q1 q2
        by (intro exI [of _ 3] exI [of _ "?f0 @ ?f1 @
              [UpdateCall r, ErrorCallback e2 (Some t),
               LogError (''Error updating task '' @ template_str (taskId r) @ '' on retry 2'') [e2],
               Sleep 30,
               LogError (''Unable to update task '' @ template_str (taskId r) @
                         '' after 3 retries'') []]"])
           (simp add: update_loop_eval)
    qed
  qed
qed

lemma updateTaskWithRetry_state:
  assumes "\<forall>tr e t. onError_resp en tr e t = Inr ()"
      and "\<forall>tr msg args. logger_error_resp en tr msg args = Inr ()"
  shows "\<exists>s'. updateTaskWithRetry en t r s = (Inr (), s')"
  using updateTaskWithRetry_events [OF assms, of t r s] by blast

text \<open>
  C8, as stated, fails: \<open>updateTaskWithRetry\<close> is to return normally in all cases. It
  calls the error callback and the logger inside its catch block with nothing around the
  calls. When the queue service rejects the update and the error callback throws, the
  thrown value leaves \<open>updateTaskWithRetry\<close> after the first attempt.
\<close>

theorem updateTaskWithRetry_raises_when_callback_throws:
  "updateTaskWithRetry env_onError_throws task_t1 result_completed initial =
     (Inl (new_Error ''cb''),
      \<lparr>isPolling = False,
       trace = [UpdateCall result_completed, ErrorCallback (new_Error ''down'') (Some task_t1)],
       polls = 0, executes = 0, updates = 1, cycles = 0\<rparr>)"
  by (simp add: updateTaskWithRetry_def update_loop_failed env_onError_throws_def initial_def)

text \<open>
  C8, amended. \<open>updateTaskWithRetry\<close> returns normally whatever the queue service
  answers, whether an attempt succeeds or all attempts fail, provided the error callback
  and the logger's \<open>error\<close> return normally.
\<close>

theorem updateTaskWithRetry_returns_normally:
  assumes "\<forall>tr e t. onError_resp en tr e t = Inr ()"
      and "\<forall>tr msg args. logger_error_resp en tr msg args = Inr ()"
  shows "fst (updateTaskWithRetry en t taskResult s) = Inr ()"
  unfolding updateTaskWithRetry_def using assms by (rule update_loop_returns)

theorem updateTaskWithRetry_returns_normally_witness:
  "(\<forall>tr e t. onError_resp env_update_down tr e t = Inr ()) \<and>
   (\<forall>tr msg args. logger_error_resp env_update_down tr msg args = Inr ()) \<and>
   fst (updateTaskWithRetry env_update_down task_t1 result_completed initial) = Inr ()"
  using updateTaskWithRetry_returns_normally
    [of env_update_down task_t1 result_completed initial]
  by (simp add: env_update_down_def)



section \<open>The executor\<close>

text \<open>Sequencing and \<open>try\<close>/\<open>catch\<close> of actions that only append to the trace.\<close>

lemma and_then_grows:
  assumes "\<exists>evs. trace (snd (a s)) = trace s @ evs"
      and "\<And>x s'. \<exists>evs. trace (snd (f x s')) = trace s' @ evs"
  shows "\<exists>evs. trace (snd (and_then a f s)) = trace s @ evs"
proof (cases "a s")
  case (Pair c s1)
  from assms(1) Pair obtain evs where evs: "trace s1 = trace s @ evs" by auto
  show ?thesis
  proof (cases c)
    case (Inl e)
    with Pair evs show ?thesis by (simp add: and_then_def)
  next
    case (Inr x)
    from assms(2) [of x s1] obtain evs' where "trace (snd (f x s1)) = trace s1 @ evs'" by blast
    with Pair Inr evs show ?thesis by (simp add: and_then_def)
  qed
qed

lemma try_catch_grows:
  assumes "\<exists>evs. trace (snd (a s)) = trace s @ evs"
      and "\<And>e s'. \<exists>evs. trace (snd (h e s')) = trace s' @ evs"
  shows "\<exists>evs. trace (snd (try_catch a h s)) = trace s @ evs"
proof (cases "a s")
  case (Pair c s1)
  from assms(1) Pair obtain evs where evs: "trace s1 = trace s @ evs" by auto
  show ?thesis
  proof (cases c)
    case (Inr x)
    with Pair evs show ?thesis by (simp add: try_catch_def)
  next
    case (Inl e)
    from assms(2) [of e s1] obtain evs' where "trace (snd (h e s1)) = trace s1 @ evs'" by blast
    with Pair Inl evs show ?thesis by (simp add: try_catch_def)
  qed
qed

lemma and_then_starts:
  assumes "\<exists>evs. trace (snd (a s)) = trace s @ ev # evs"
      and "\<And>x s'. \<exists>evs. trace (snd (f x s')) = trace s' @ evs"
  shows "\<exists>evs. trace (snd (and_then a f s)) = trace s @ ev # evs"
proof (cases "a s")
  case (Pair c s1)
  from assms(1) Pair obtain evs where evs: "trace s1 = trace s @ ev # evs" by auto
  show ?thesis
  proof (cases c)
    case (Inl e)
    with Pair evs show ?thesis by (simp add: and_then_def)
  next
    case (Inr x)
    from assms(2) [of x s1] obtain evs' where "trace (snd (f x s1)) = trace s1 @ evs'" by blast
    with Pair Inr evs show ?thesis by (simp add: and_then_def)
  qed
qed

lemma try_catch_starts:
  assumes "\<exists>evs. trace (snd (a s)) = trace s @ ev # evs"
      and "\<And>e s'. \<exists>evs. trace (snd (h e s')) = trace s' @ evs"
  shows "\<exists>evs. trace (snd (try_catch a h s)) = trace s @ ev # evs"
proof (cases "a s")
  case (Pair c s1)
  from assms(1) Pair obtain evs where evs: "trace s1 = trace s @ ev # evs" by auto
  show ?thesis
  proof (cases c)
    case (Inr x)
    with Pair evs show ?thesis by (simp add: try_catch_def)
  next
    case (Inl e)
    from assms(2) [of e s1] obtain evs' where "trace (snd (h e s1)) = trace s1 @ evs'" by blast
    with Pair Inl evs show ?thesis by (simp add: try_catch_def)
  qed
qed

lemma updateTaskWithRetry_grows:
  "\<exists>evs. trace (snd (updateTaskWithRetry en t r s)) = trace s @ evs"
  using updateTaskWithRetry_first [of en t r s] by auto

lemma executeTask_catch_grows:
  "\<exists>evs. trace (snd (and_then (updateTaskWithRetry en t r) (\<lambda>_.
             and_then (errorHandler en error (Some t)) (\<lambda>_.
             logger_error en msg [error])) s)) = trace s @ evs"
  by (intro and_then_grows updateTaskWithRetry_grows)
     (simp_all add: errorHandler_def logger_error_def)

text \<open>\<open>executeTask\<close> with an error callback and a logger that return normally.\<close>

lemma executeTask_resolved:
  assumes "execute_resp en (executes s) = Inr result"
      and "updateTaskWithRetry en t
             (result\<lparr>workflowInstanceId := workflowInstanceId t, taskId := taskId t\<rparr>)
             (s\<lparr>executes := executes s + 1, trace := trace s @ [ExecuteCall t]\<rparr>) = (Inr (), s2)"
      and "\<forall>tr msg. logger_debug_resp en tr msg = Inr ()"
  shows "executeTask en cfg t s =
    (Inr (), s2\<lparr>trace := trace s2 @
        [LogDebug (''Finished polling for task '' @ template_str (taskId t))]\<rparr>)"
  using assms
  by (simp add: executeTask_def try_catch_def and_then_def worker_execute_def
       logger_debug_def)

lemma executeTask_rejected:
  assumes "execute_resp en (executes s) = Inl error"
      and "updateTaskWithRetry en t
             \<lparr>workflowInstanceId = workflowInstanceId t,
              taskId = taskId t,
              status = Some ''FAILED'',
              outputData = Some [],
              reasonForIncompletion =
                Some (nullish_coalesce (optional_message error) DEFAULT_ERROR_MESSAGE)\<rparr>
             (s\<lparr>executes := executes s + 1, trace := trace s @ [ExecuteCall t]\<rparr>) = (Inr (), s2)"
      and "\<forall>tr e t. onError_resp en tr e t = Inr ()"
      and "\<forall>tr msg args. logger_error_resp en tr msg args = Inr ()"
  shows "executeTask en cfg t s =
    (Inr (), s2\<lparr>trace := trace s2 @
        [ErrorCallback error (Some t),
         LogError (''Error executing '' @ template_str (taskId t)) [error]]\<rparr>)"
  using assms
  by (simp add: executeTask_def try_catch_def and_then_def worker_execute_def
       errorHandler_def logger_error_def)

lemma executeTask_resolved_trace:
  assumes a: "execute_resp en (executes s) = Inr result"
      and r: "r = result\<lparr>workflowInstanceId := workflowInstanceId t, taskId := taskId t\<rparr>"
      and q1: "\<forall>tr e t. onError_resp en tr e t = Inr ()"
      and q2: "\<forall>tr msg args. logger_error_resp en tr msg args = Inr ()"
      and q3: "\<forall>tr msg. logger_debug_resp en tr msg = Inr ()"
  shows "\<exists>rest. fst (executeTask en cfg t s) = Inr () \<and>
           trace (snd (executeTask en cfg t s)) =
             trace s @ ExecuteCall t # UpdateCall r # rest \<and>
           (\<forall>r'. UpdateCall r' \<in> set rest \<longrightarrow> r' = r)"
proof -
  let ?s1 = "s\<lparr>executes := executes s + 1, trace := trace s @ [ExecuteCall t]\<rparr>"
  obtain n evs where u: "updateTaskWithRetry en t r ?s1 =
      (Inr (), ?s1\<lparr>updates := updates ?s1 + n, trace := trace ?s1 @ UpdateCall r # evs\<rparr>)"
    and evs: "\<forall>r'. UpdateCall r' \<in> set evs \<longrightarrow> r' = r"
    using updateTaskWithRetry_events [OF q1 q2, of t r ?s1] by blast
  show ?thesis
    using executeTask_resolved [OF a u [unfolded r] q3] evs
    by (intro exI [of _ "evs @ [LogDebug (''Finished polling for task '' @ template_str (taskId t))]"])
       (auto simp: r)
qed

lemma executeTask_returns:
  assumes q1: "\<forall>tr e t. onError_resp en tr e t = Inr ()"
      and q2: "\<forall>tr msg args. logger_error_resp en tr msg args = Inr ()"
      and q3: "\<forall>tr msg. logger_debug_resp en tr msg = Inr ()"
  shows "fst (executeTask en cfg t s) = Inr ()"
proof (cases "execute_resp en (executes s)")
  case (Inr result)
  from executeTask_resolved_trace [OF Inr refl q1 q2 q3, of cfg t] show ?thesis by blast
next
  case (Inl error)
  let ?s1 = "s\<lparr>executes := executes s + 1, trace := trace s @ [ExecuteCall t]\<rparr>"
  let ?r = "\<lparr>workflowInstanceId = workflowInstanceId t, taskId = taskId t,
             status = Some ''FAILED'', outputData = Some [],
             reasonForIncompletion =
               Some (nullish_coalesce (optional_message error) DEFAULT_ERROR_MESSAGE)\<rparr>"
  obtain s2 where u: "updateTaskWithRetry en t ?r ?s1 = (Inr (), s2)"
    using updateTaskWithRetry_state [OF q1 q2] by blast
  from executeTask_rejected [OF Inl u q1 q2, of cfg] show ?thesis by simp
qed

text \<open>\<open>executeTask\<close>, whatever the error callback and the logger do.\<close>

lemma executeTask_rejected_any:
  assumes "execute_resp en (executes s) = Inl error"
      and "updateTaskWithRetry en t
             \<lparr>workflowInstanceId = workflowInstanceId t,
              taskId = taskId t,
              status = Some ''FAILED'',
              outputData = Some [],
              reasonForIncompletion =
                Some (nullish_coalesce (optional_message error) DEFAULT_ERROR_MESSAGE)\<rparr>
             (s\<lparr>executes := executes s + 1, trace := trace s @ [ExecuteCall t]\<rparr>) = (c, s2)"
  shows "\<exists>evs. snd (executeTask en cfg t s) = s2\<lparr>trace := trace s2 @ evs\<rparr> \<and>
               (\<forall>r'. UpdateCall r' \<notin> set evs)"
proof (cases c)
  case (Inl e)
  with assms show ?thesis
    by (intro exI [of _ "[]"])
       (simp add: executeTask_def try_catch_def and_then_def worker_execute_def)
next
  case (Inr u)
  show ?thesis
  proof (cases "onError_resp en (trace s2) error (Some t)")
    case (Inl e)
    with assms Inr show ?thesis
      by (intro exI [of _ "[ErrorCallback error (Some t)]"])
         (simp add: executeTask_def try_catch_def and_then_def worker_execute_def
            errorHandler_def)
  next
    case b: (Inr u')
    with assms Inr show ?thesis
      by (intro exI [of _ "[ErrorCallback error (Some t),
              LogError (''Error executing '' @ template_str (taskId t)) [error]]"])
         (simp add: executeTask_def try_catch_def and_then_def worker_execute_def
            errorHandler_def logger_error_def)
  qed
qed

lemma executeTask_rejected_first:
  assumes a: "execute_resp en (executes s) = Inl error"
      and r: "r = \<lparr>workflowInstanceId = workflowInstanceId t, taskId = taskId t,
                  status = Some ''FAILED'', outputData = Some [],
                  reasonForIncompletion =
                    Some (nullish_coalesce (optional_message error) DEFAULT_ERROR_MESSAGE)\<rparr>"
  shows "\<exists>rest. trace (snd (executeTask en cfg t s)) =
             trace s @ ExecuteCall t # UpdateCall r # rest \<and>
           (\<forall>r'. UpdateCall r' \<in> set rest \<longrightarrow> r' = r)"
proof -
  let ?s1 = "s\<lparr>executes := executes s + 1, trace := trace s @ [ExecuteCall t]\<rparr>"
  obtain c s2 where u: "updateTaskWithRetry en t r ?s1 = (c, s2)"
    by (cases "updateTaskWithRetry en t r ?s1")
  obtain evs where evs: "trace s2 = trace ?s1 @ UpdateCall r # evs"
      "\<forall>r'. UpdateCall r' \<in> set evs \<longrightarrow> r' = r"
    using updateTaskWithRetry_first [of en t r ?s1] u by auto
  obtain evs' where evs': "snd (executeTask en cfg t s) = s2\<lparr>trace := trace s2 @ evs'\<rparr>"
      "\<forall>r'. UpdateCall r' \<notin> set evs'"
    using executeTask_rejected_any [OF a u [unfolded r]] by blast
  show ?thesis
    using evs evs' by (intro exI [of _ "evs @ evs'"]) auto
qed

lemma executeTask_resolved_first:
  assumes a: "execute_resp en (executes s) = Inr result"
      and r: "r = result\<lparr>workflowInstanceId := workflowInstanceId t, taskId := taskId t\<rparr>"
  shows "\<exists>rest. trace (snd (executeTask en cfg t s)) =
             trace s @ ExecuteCall t # UpdateCall r # rest"
proof -
  let ?s1 = "s\<lparr>executes := executes s + 1, trace := trace s @ [ExecuteCall t]\<rparr>"
  let ?body = "and_then (updateTaskWithRetry en t r) (\<lambda>_.
        logger_debug en (''Finished polling for task '' @ template_str (taskId t)))"
  obtain c s2 where u: "updateTaskWithRetry en t r ?s1 = (c, s2)"
    by (cases "updateTaskWithRetry en t r ?s1")
  obtain evs where evs: "trace s2 = trace ?s1 @ UpdateCall r # evs"
    using updateTaskWithRetry_first [of en t r ?s1] u by auto
  obtain c3 s3 where b: "?body ?s1 = (c3, s3)" by (cases "?body ?s1")
  have "\<exists>evs3. trace s3 = trace s2 @ evs3"
    using u b by (cases c) (auto simp: and_then_def logger_debug_def)
  then obtain evs3 where evs3: "trace s3 = trace s2 @ evs3" by blast
  have e: "executeTask en cfg t s =
      (case c3 of Inl error \<Rightarrow>
         and_then (updateTaskWithRetry en t
            \<lparr>workflowInstanceId = workflowInstanceId t,
             taskId = taskId t,
             status = Some ''FAILED'',
             outputData = Some [],
             reasonForIncompletion =
               Some (nullish_coalesce (optional_message error) DEFAULT_ERROR_MESSAGE)\<rparr>) (\<lambda>_.
         and_then (errorHandler en error (Some t)) (\<lambda>_.
         logger_error en (''Error executing '' @ template_str (taskId t)) [error])) s3
       | Inr x \<Rightarrow> (Inr x, s3))"
    using a b unfolding r
    by (simp add: executeTask_def try_catch_def worker_execute_def and_then_def [of "worker_execute en t"]
          split: sum.splits)
  show ?thesis
  proof (cases c3)
    case (Inr x)
    with e evs evs3 show ?thesis by simp
  next
    case (Inl error)
    obtain evs4 where "trace (snd (executeTask en cfg t s)) = trace s3 @ evs4"
      using executeTask_catch_grows [of en t _ error _ s3] e Inl by auto
    with evs evs3 show ?thesis by simp
  qed
qed

lemma executeTask_trace:
  "\<exists>evs. trace (snd (executeTask en cfg t s)) = trace s @ ExecuteCall t # evs"
proof (cases "execute_resp en (executes s)")
  case (Inl error)
  from executeTask_rejected_first [OF Inl refl, of cfg t] show ?thesis by blast
next
  case (Inr result)
  from executeTask_resolved_first [OF Inr refl, of cfg t] show ?thesis by blast
qed

text \<open>
  C3, as stated, fails: every call of \<open>executeTask\<close> is to make exactly one call of
  \<open>updateTaskWithRetry\<close>. When the worker's \<open>execute\<close> resolves, the queue service
  rejects the update and the error callback throws, the thrown value leaves the first
  \<open>updateTaskWithRetry\<close> inside the \<open>try\<close> block, and the catch block calls
  \<open>updateTaskWithRetry\<close> a second time, with a \<open>FAILED\<close> record: the trace has two
  update calls, of two different records, each the single attempt of its call.
\<close>

theorem executeTask_two_updates_when_callback_throws:
  "executeTask env_onError_throws cfg_example task_t1 initial =
     (Inl (new_Error ''cb''),
      \<lparr>isPolling = False,
       trace =
         [ExecuteCall task_t1,
          UpdateCall \<lparr>workflowInstanceId = Some ''w1'', taskId = Some ''t1'',
                      status = Some ''COMPLETED'', outputData = Some [(''x'', JNum 1)],
                      reasonForIncompletion = None\<rparr>,
          ErrorCallback (new_Error ''down'') (Some task_t1),
          UpdateCall \<lparr>workflowInstanceId = Some ''w1'', taskId = Some ''t1'',
                      status = Some ''FAILED'', outputData = Some [],
                      reasonForIncompletion = Some ''cb''\<rparr>,
          ErrorCallback (new_Error ''down'') (Some task_t1)],
       polls = 0, executes = 1, updates = 2, cycles = 0\<rparr>)"
  by (simp add: executeTask_def try_catch_def and_then_def worker_execute_def
        updateTaskWithRetry_def update_loop_failed env_onError_throws_def initial_def
        result_completed_def task_t1_def new_Error_def)

text \<open>
  There, no single run of \<open>updateTaskWithRetry\<close> from the state after the \<open>execute\<close>
  call accounts for the state \<open>executeTask\<close> ends in: each run makes one attempt, and
  \<open>executeTask\<close> has made two.
\<close>

lemma executeTask_no_single_update_when_callback_throws:
  "\<not> (\<exists>r c s2 evs.
        updateTaskWithRetry env_onError_throws task_t1 r
          (initial\<lparr>executes := executes initial + 1,
                   trace := trace initial @ [ExecuteCall task_t1]\<rparr>) = (c, s2) \<and>
        snd (executeTask env_onError_throws cfg_example task_t1 initial) =
          s2\<lparr>trace := trace s2 @ evs\<rparr> \<and>
        (\<forall>r'. UpdateCall r' \<notin> set evs))"
proof
  assume "\<exists>r c s2 evs.
        updateTaskWithRetry env_onError_throws task_t1 r
          (initial\<lparr>executes := executes initial + 1,
                   trace := trace initial @ [ExecuteCall task_t1]\<rparr>) = (c, s2) \<and>
        snd (executeTask env_onError_throws cfg_example task_t1 initial) =
          s2\<lparr>trace := trace s2 @ evs\<rparr> \<and>
        (\<forall>r'. UpdateCall r' \<notin> set evs)"
  then obtain r c s2 evs where
    u: "updateTaskWithRetry env_onError_throws task_t1 r
          (initial\<lparr>executes := executes initial + 1,
                   trace := trace initial @ [ExecuteCall task_t1]\<rparr>) = (c, s2)"
    and e: "snd (executeTask env_onError_throws cfg_example task_t1 initial) =
          s2\<lparr>trace := trace s2 @ evs\<rparr>"
    by blast
  have "updates s2 = 1"
    using u
    by (auto simp add: updateTaskWithRetry_def update_loop_failed env_onError_throws_def
          initial_def)
  moreover have "updates (snd (executeTask env_onError_throws cfg_example task_t1 initial)) = 2"
    by (simp add: executeTask_def try_catch_def and_then_def worker_execute_def
        updateTaskWithRetry_def update_loop_failed env_onError_throws_def initial_def)
  ultimately show False using e by simp
qed

text \<open>
  C3, amended. A call of \<open>executeTask\<close> makes exactly one call of
  \<open>updateTaskWithRetry\<close>, with a result record \<open>r\<close> that carries the task's \<open>taskId\<close>
  and \<open>workflowInstanceId\<close>, when the worker's \<open>execute\<close> rejects, and also when it
  resolves provided the error callback and the logger return normally: the state
  \<open>executeTask\<close> ends in is the state \<open>s2\<close> that one run of \<open>updateTaskWithRetry\<close>
  reaches from the state after the \<open>execute\<close> call, followed by events \<open>evs\<close> among which
  there is no update call. With an error callback and a logger that return normally both
  that run and \<open>executeTask\<close> return normally.
\<close>

theorem executeTask_one_update:
  "((\<exists>error. execute_resp en (executes s) = Inl error) \<longrightarrow>
      (\<exists>r c s2 evs.
         taskId r = taskId t \<and> workflowInstanceId r = workflowInstanceId t \<and>
         updateTaskWithRetry en t r
           (s\<lparr>executes := executes s + 1, trace := trace s @ [ExecuteCall t]\<rparr>) = (c, s2) \<and>
         snd (executeTask en cfg t s) = s2\<lparr>trace := trace s2 @ evs\<rparr> \<and>
         (\<forall>r'. UpdateCall r' \<notin> set evs))) \<and>
   ((\<forall>tr e t. onError_resp en tr e t = Inr ()) \<and>
    (\<forall>tr msg args. logger_error_resp en tr msg args = Inr ()) \<and>
    (\<forall>tr msg. logger_debug_resp en tr msg = Inr ()) \<longrightarrow>
      (\<exists>r s2 evs.
         taskId r = taskId t \<and> workflowInstanceId r = workflowInstanceId t \<and>
         updateTaskWithRetry en t r
           (s\<lparr>executes := executes s + 1, trace := trace s @ [ExecuteCall t]\<rparr>) = (Inr (), s2) \<and>
         executeTask en cfg t s = (Inr (), s2\<lparr>trace := trace s2 @ evs\<rparr>) \<and>
         (\<forall>r'. UpdateCall r' \<notin> set evs)))"
proof (intro conjI impI)
  let ?s1 = "s\<lparr>executes := executes s + 1, trace := trace s @ [ExecuteCall t]\<rparr>"
  assume "\<exists>error. execute_resp en (executes s) = Inl error"
  then obtain error where a: "execute_resp en (executes s) = Inl error" by blast
  let ?r = "\<lparr>workflowInstanceId = workflowInstanceId t, taskId = taskId t,
             status = Some ''FAILED'', outputData = Some [],
             reasonForIncompletion =
               Some (nullish_coalesce (optional_message error) DEFAULT_ERROR_MESSAGE)\<rparr>"
  obtain c s2 where u: "updateTaskWithRetry en t ?r ?s1 = (c, s2)"
    by (cases "updateTaskWithRetry en t ?r ?s1")
  obtain evs where "snd (executeTask en cfg t s) = s2\<lparr>trace := trace s2 @ evs\<rparr>"
      "\<forall>r'. UpdateCall r' \<notin> set evs"
    using executeTask_rejected_any [OF a u] by blast
  with u show "\<exists>r c s2 evs.
         taskId r = taskId t \<and> workflowInstanceId r = workflowInstanceId t \<and>
         updateTaskWithRetry en t r ?s1 = (c, s2) \<and>
         snd (executeTask en cfg t s) = s2\<lparr>trace := trace s2 @ evs\<rparr> \<and>
         (\<forall>r'. UpdateCall r' \<notin> set evs)"
    by (intro exI [of _ ?r] exI [of _ c] exI [of _ s2] exI [of _ evs]) simp
next
  let ?s1 = "s\<lparr>executes := executes s + 1, trace := trace s @ [ExecuteCall t]\<rparr>"
  assume q: "(\<forall>tr e t. onError_resp en tr e t = Inr ()) \<and>
    (\<forall>tr msg args. logger_error_resp en tr msg args = Inr ()) \<and>
    (\<forall>tr msg. logger_debug_resp en tr msg = Inr ())"
  then have q1: "\<forall>tr e t. onError_resp en tr e t = Inr ()"
    and q2: "\<forall>tr msg args. logger_error_resp en tr msg args = Inr ()"
    and q3: "\<forall>tr msg. logger_debug_resp en tr msg = Inr ()" by blast+
  show "\<exists>r s2 evs.
         taskId r = taskId t \<and> workflowInstanceId r = workflowInstanceId t \<and>
         updateTaskWithRetry en t r ?s1 = (Inr (), s2) \<and>
         executeTask en cfg t s = (Inr (), s2\<lparr>trace := trace s2 @ evs\<rparr>) \<and>
         (\<forall>r'. UpdateCall r' \<notin> set evs)"
  proof (cases "execute_resp en (executes s)")
    case (Inr result)
    let ?r = "result\<lparr>workflowInstanceId := workflowInstanceId t, taskId := taskId t\<rparr>"
    obtain s2 where u: "updateTaskWithRetry en t ?r ?s1 = (Inr (), s2)"
      using updateTaskWithRetry_state [OF q1 q2] by blast
    have "executeTask en cfg t s = (Inr (), s2\<lparr>trace := trace s2 @
          [LogDebug (''Finished polling for task '' @ template_str (taskId t))]\<rparr>)"
      using Inr u q3 by (rule executeTask_resolved)
    with u show ?thesis
      by (intro exI [of _ ?r] exI [of _ s2]
            exI [of _ "[LogDebug (''Finished polling for task '' @ template_str (taskId t))]"])
         simp
  next
    case (Inl error)
    let ?r = "\<lparr>workflowInstanceId = workflowInstanceId t, taskId = taskId t,
               status = Some ''FAILED'', outputData = Some [],
               reasonForIncompletion =
                 Some (nullish_coalesce (optional_message error) DEFAULT_ERROR_MESSAGE)\<rparr>"
    obtain s2 where u: "updateTaskWithRetry en t ?r ?s1 = (Inr (), s2)"
      using updateTaskWithRetry_state [OF q1 q2] by blast
    have "executeTask en cfg t s = (Inr (), s2\<lparr>trace := trace s2 @
          [ErrorCallback error (Some t),
           LogError (''Error executing '' @ template_str (taskId t)) [error]]\<rparr>)"
      using Inl u q1 q2 by (rule executeTask_rejected)
    with u show ?thesis
      by (intro exI [of _ ?r] exI [of _ s2]
            exI [of _ "[ErrorCallback error (Some t),
                        LogError (''Error executing '' @ template_str (taskId t)) [error]]"])
         simp
  qed
qed

theorem executeTask_one_update_witness:
  "(\<exists>error. execute_resp env_update_down (executes initial) = Inl error) \<and>
   (\<forall>tr e t. onError_resp env_worker_completes tr e t = Inr ()) \<and>
   (\<forall>tr msg args. logger_error_resp env_worker_completes tr msg args = Inr ()) \<and>
   (\<forall>tr msg. logger_debug_resp env_worker_completes tr msg = Inr ()) \<and>
   (\<exists>r c s2 evs.
      taskId r = Some ''t1'' \<and> workflowInstanceId r = Some ''w1'' \<and>
      updateTaskWithRetry env_update_down task_t1 r
        (initial\<lparr>executes := 1, trace := [ExecuteCall task_t1]\<rparr>) = (c, s2) \<and>
      snd (executeTask env_update_down cfg_example task_t1 initial) =
        s2\<lparr>trace := trace s2 @ evs\<rparr> \<and>
      (\<forall>r'. UpdateCall r' \<notin> set evs)) \<and>
   (\<exists>r s2 evs.
      taskId r = Some ''t1'' \<and> workflowInstanceId r = Some ''w1'' \<and>
      updateTaskWithRetry env_worker_completes task_t1 r
        (initial\<lparr>executes := 1, trace := [ExecuteCall task_t1]\<rparr>) = (Inr (), s2) \<and>
      executeTask env_worker_completes cfg_example task_t1 initial =
        (Inr (), s2\<lparr>trace := trace s2 @ evs\<rparr>) \<and>
      (\<forall>r'. UpdateCall r' \<notin> set evs))"
  using executeTask_one_update [of env_update_down initial task_t1 cfg_example]
    executeTask_one_update [of env_worker_completes initial task_t1 cfg_example]
  by (simp add: env_update_down_def env_worker_completes_def initial_def task_t1_def)

text \<open>
  C4. If the worker's \<open>execute\<close> rejects with \<open>error\<close>, every update call of
  \<open>executeTask\<close> (there is at least one) carries the task's identifiers, status
  \<open>FAILED\<close>, an empty output payload, and as \<open>reasonForIncompletion\<close> the message of
  \<open>error\<close> when it has one, the default message \<open>DEFAULT_ERROR_MESSAGE\<close> otherwise,
  whatever the error callback and the logger do.
  The witness is the specification's example: message \<open>boom\<close> for the task with
  \<open>taskId\<close> \<open>t1\<close> and \<open>workflowInstanceId\<close> \<open>w1\<close>, and a rejection with \<open>undefined\<close>.
\<close>

theorem executeTask_failed_result:
  assumes "execute_resp en (executes s) = Inl error"
  shows "\<exists>r rest.
      r = \<lparr>workflowInstanceId = workflowInstanceId t, taskId = taskId t,
           status = Some ''FAILED'', outputData = Some [],
           reasonForIncompletion =
             Some (case error of JSObject (Some m) st \<Rightarrow> m | _ \<Rightarrow> DEFAULT_ERROR_MESSAGE)\<rparr> \<and>
      trace (snd (executeTask en cfg t s)) = trace s @ ExecuteCall t # UpdateCall r # rest \<and>
      (\<forall>r'. UpdateCall r' \<in> set rest \<longrightarrow> r' = r)"
proof -
  have m: "nullish_coalesce (optional_message error) DEFAULT_ERROR_MESSAGE =
           (case error of JSObject (Some m) st \<Rightarrow> m | _ \<Rightarrow> DEFAULT_ERROR_MESSAGE)"
    by (cases error) (simp_all split: option.splits)
  from executeTask_rejected_first [OF assms refl, of cfg t] show ?thesis
    unfolding m by blast
qed

theorem executeTask_failed_result_witness:
  "execute_resp (env_worker_throws (new_Error ''boom'')) (executes initial) =
     Inl (new_Error ''boom'') \<and>
   execute_resp (env_worker_throws JSUndefined) (executes initial) = Inl JSUndefined \<and>
   (\<exists>rest. trace (snd (executeTask (env_worker_throws (new_Error ''boom'')) cfg_example
                         task_t1 initial)) =
      ExecuteCall task_t1 #
      UpdateCall \<lparr>workflowInstanceId = Some ''w1'', taskId = Some ''t1'',
                  status = Some ''FAILED'', outputData = Some [],
                  reasonForIncompletion = Some ''boom''\<rparr> # rest) \<and>
   (\<exists>rest. trace (snd (executeTask (env_worker_throws JSUndefined) cfg_example
                         task_t1 initial)) =
      ExecuteCall task_t1 #
      UpdateCall \<lparr>workflowInstanceId = Some ''w1'', taskId = Some ''t1'',
                  status = Some ''FAILED'', outputData = Some [],
                  reasonForIncompletion = Some ''An unknown error occurred''\<rparr> # rest)"
  using executeTask_failed_result
    [of "env_worker_throws (new_Error ''boom'')" initial "new_Error ''boom''" task_t1 cfg_example]
    executeTask_failed_result
    [of "env_worker_throws JSUndefined" initial JSUndefined task_t1 cfg_example]
  by (auto simp add: env_worker_throws_def initial_def new_Error_def task_t1_def
        DEFAULT_ERROR_MESSAGE_def)

text \<open>
  C5. If the worker's \<open>execute\<close> resolves with \<open>result\<close>, the update call that follows
  the \<open>execute\<close> call carries the status and the output payload of \<open>result\<close> with the
  task's \<open>taskId\<close> and \<open>workflowInstanceId\<close>, whatever the error callback and the logger
  do; with an error callback and a logger that return normally, every update call of
  \<open>executeTask\<close> carries that record.
\<close>

theorem executeTask_completed_result:
  assumes "execute_resp en (executes s) = Inr result"
  shows "\<exists>r rest.
      r = \<lparr>workflowInstanceId = workflowInstanceId t, taskId = taskId t,
           status = status result, outputData = outputData result,
           reasonForIncompletion = reasonForIncompletion result\<rparr> \<and>
      trace (snd (executeTask en cfg t s)) = trace s @ ExecuteCall t # UpdateCall r # rest \<and>
      ((\<forall>tr e t. onError_resp en tr e t = Inr ()) \<and>
       (\<forall>tr msg args. logger_error_resp en tr msg args = Inr ()) \<and>
       (\<forall>tr msg. logger_debug_resp en tr msg = Inr ()) \<longrightarrow>
         (\<forall>r'. UpdateCall r' \<in> set rest \<longrightarrow> r' = r))"
proof -
  let ?r = "\<lparr>workflowInstanceId = workflowInstanceId t, taskId = taskId t,
            status = status result, outputData = outputData result,
            reasonForIncompletion = reasonForIncompletion result\<rparr>"
  let ?Q = "(\<forall>tr e t. onError_resp en tr e t = Inr ()) \<and>
       (\<forall>tr msg args. logger_error_resp en tr msg args = Inr ()) \<and>
       (\<forall>tr msg. logger_debug_resp en tr msg = Inr ())"
  have r: "?r = result\<lparr>workflowInstanceId := workflowInstanceId t, taskId := taskId t\<rparr>"
    by simp
  have "\<exists>rest. trace (snd (executeTask en cfg t s)) =
                 trace s @ ExecuteCall t # UpdateCall ?r # rest \<and>
               (?Q \<longrightarrow> (\<forall>r'. UpdateCall r' \<in> set rest \<longrightarrow> r' = ?r))"
  proof (cases ?Q)
    case True
    then have q1: "\<forall>tr e t. onError_resp en tr e t = Inr ()"
      and q2: "\<forall>tr msg args. logger_error_resp en tr msg args = Inr ()"
      and q3: "\<forall>tr msg. logger_debug_resp en tr msg = Inr ()" by simp_all
    from executeTask_resolved_trace [OF assms r q1 q2 q3, of cfg]
    obtain rest where "trace (snd (executeTask en cfg t s)) =
        trace s @ ExecuteCall t # UpdateCall ?r # rest"
      "\<forall>r'. UpdateCall r' \<in> set rest \<longrightarrow> r' = ?r" by blast
    then show ?thesis by (intro exI [of _ rest]) simp
  next
    case False
    from executeTask_resolved_first [OF assms r, of cfg]
    obtain rest where "trace (snd (executeTask en cfg t s)) =
        trace s @ ExecuteCall t # UpdateCall ?r # rest" by blast
    moreover have "?Q \<longrightarrow> (\<forall>r'. UpdateCall r' \<in> set rest \<longrightarrow> r' = ?r)"
    proof
      assume ?Q
      with False show "\<forall>r'. UpdateCall r' \<in> set rest \<longrightarrow> r' = ?r" by (rule notE)
    qed
    ultimately show ?thesis by (intro exI [of _ rest] conjI)
  qed
  then show ?thesis by (intro exI [of _ ?r]) simp
qed

theorem executeTask_completed_result_witness:
  "execute_resp env_worker_completes (executes initial) = Inr result_completed \<and>
   (\<forall>tr e t. onError_resp env_worker_completes tr e t = Inr ()) \<and>
   (\<forall>tr msg args. logger_error_resp env_worker_completes tr msg args = Inr ()) \<and>
   (\<forall>tr msg. logger_debug_resp env_worker_completes tr msg = Inr ()) \<and>
   (\<exists>rest. trace (snd (executeTask env_worker_completes cfg_example task_t1 initial)) =
      ExecuteCall task_t1 #
      UpdateCall \<lparr>workflowInstanceId = Some ''w1'', taskId = Some ''t1'',
                  status = Some ''COMPLETED'', outputData = Some [(''x'', JNum 1)],
                  reasonForIncompletion = None\<rparr> # rest \<and>
      (\<forall>r'. UpdateCall r' \<in> set rest \<longrightarrow>
         r' = \<lparr>workflowInstanceId = Some ''w1'', taskId = Some ''t1'',
                status = Some ''COMPLETED'', outputData = Some [(''x'', JNum 1)],
                reasonForIncompletion = None\<rparr>))"
  using executeTask_completed_result
    [of env_worker_completes initial result_completed task_t1 cfg_example]
  by (auto simp add: env_worker_completes_def initial_def result_completed_def task_t1_def)

text \<open>
  C10. If the worker's \<open>execute\<close> rejects with a value whose \<open>message\<close> is present, the
  failed result's \<open>reasonForIncompletion\<close> is that message, also when it is the empty
  string, which differs from the default message: the default stands in for an absent
  message only.
\<close>

theorem executeTask_present_message_kept:
  assumes "execute_resp en (executes s) = Inl (JSObject (Some m) st)"
  shows "(\<exists>r rest.
      r = \<lparr>workflowInstanceId = workflowInstanceId t, taskId = taskId t,
           status = Some ''FAILED'', outputData = Some [],
           reasonForIncompletion = Some m\<rparr> \<and>
      trace (snd (executeTask en cfg t s)) = trace s @ ExecuteCall t # UpdateCall r # rest \<and>
      (\<forall>r'. UpdateCall r' \<in> set rest \<longrightarrow> r' = r)) \<and>
    (m = [] \<longrightarrow> Some m \<noteq> Some DEFAULT_ERROR_MESSAGE)"
proof
  from executeTask_rejected_first [OF assms refl, of cfg t]
  show "\<exists>r rest.
      r = \<lparr>workflowInstanceId = workflowInstanceId t, taskId = taskId t,
           status = Some ''FAILED'', outputData = Some [],
           reasonForIncompletion = Some m\<rparr> \<and>
      trace (snd (executeTask en cfg t s)) = trace s @ ExecuteCall t # UpdateCall r # rest \<and>
      (\<forall>r'. UpdateCall r' \<in> set rest \<longrightarrow> r' = r)"
    by simp
  show "m = [] \<longrightarrow> Some m \<noteq> Some DEFAULT_ERROR_MESSAGE"
    by (simp add: DEFAULT_ERROR_MESSAGE_def)
qed

theorem executeTask_present_message_kept_witness:
  "execute_resp (env_worker_throws (JSObject (Some []) None)) (executes initial) =
     Inl (JSObject (Some []) None) \<and>
   (\<exists>rest. trace (snd (executeTask (env_worker_throws (JSObject (Some []) None)) cfg_example
                         task_t1 initial)) =
      ExecuteCall task_t1 #
      UpdateCall \<lparr>workflowInstanceId = Some ''w1'', taskId = Some ''t1'',
                  status = Some ''FAILED'', outputData = Some [],
                  reasonForIncompletion = Some []\<rparr> # rest) \<and>
   Some [] \<noteq> Some DEFAULT_ERROR_MESSAGE"
  using executeTask_present_message_kept
    [of "env_worker_throws (JSObject (Some []) None)" initial "[]" None task_t1 cfg_example]
  by (auto simp add: env_worker_throws_def initial_def task_t1_def)

section \<open>The error funnel\<close>

text \<open>
  On a value whose properties can be read, \<open>handleUnknownError\<close> makes one call of the
  logger's \<open>error\<close>, with a line that names the worker's \<open>taskDefName\<close> and has the empty
  string for an absent message or stack.
\<close>

lemma handleUnknownError_object:
  "handleUnknownError en cfg (JSObject m st) s =
     (logger_error_resp en (trace s)
        (''Error for '' @ taskDefName cfg @ '': error: '' @
         (case m of None \<Rightarrow> [] | Some x \<Rightarrow> x) @ '', stack: '' @
         (case st of None \<Rightarrow> [] | Some x \<Rightarrow> x)) [],
      s\<lparr>trace := trace s @
        [LogError (''Error for '' @ taskDefName cfg @ '': error: '' @
                   (case m of None \<Rightarrow> [] | Some x \<Rightarrow> x) @ '', stack: '' @
                   (case st of None \<Rightarrow> [] | Some x \<Rightarrow> x)) []]\<rparr>)"
  by (cases m; cases st) (simp_all add: handleUnknownError_def logger_error_def)

lemma handleUnknownError_nullish:
  "handleUnknownError en cfg JSUndefined s = (Inl (TypeError_property_of_nullish ''stack''), s)"
  "handleUnknownError en cfg JSNull s = (Inl (TypeError_property_of_nullish ''stack''), s)"
  by (simp_all add: handleUnknownError_def)

lemma handleUnknownError_grows:
  "\<exists>evs. trace (snd (handleUnknownError en cfg e s)) = trace s @ evs"
  by (cases e) (simp_all add: handleUnknownError_nullish handleUnknownError_object)

text \<open>
  C9. \<open>handleUnknownError\<close> is to log one line for every caught value without raising
  from its property reads. On \<open>undefined\<close> and on \<open>null\<close> the unguarded read of
  \<open>stack\<close> raises a \<open>TypeError\<close>, and nothing is logged: the state is unchanged.
  \<open>executeTask\<close> reads the message of the value it catches with \<open>?.\<close> and has no such
  failure.
\<close>

theorem handleUnknownError_raises_on_nullish:
  "handleUnknownError en cfg JSUndefined s =
     (Inl (TypeError_property_of_nullish ''stack''), s) \<and>
   handleUnknownError en cfg JSNull s = (Inl (TypeError_property_of_nullish ''stack''), s)"
  by (simp add: handleUnknownError_def)

section \<open>The poll loop\<close>

lemma poll_cycle_rejected_object:
  assumes "poll_resp en (polls s) = Inl (JSObject m st)"
      and "\<forall>tr e t. onError_resp en tr e t = Inr ()"
      and "\<forall>tr msg args. logger_error_resp en tr msg args = Inr ()"
  shows "poll_cycle en cfg s =
    (Inr (), s\<lparr>polls := polls s + 1,
               isPolling := (if stop_req en (cycles s) then False else isPolling s),
               cycles := cycles s + 1,
               trace := trace s @
                 [PollCall (taskDefName cfg) (workerID cfg) (domain cfg),
                  LogError (''Error for '' @ taskDefName cfg @ '': error: '' @
                            (case m of None \<Rightarrow> [] | Some x \<Rightarrow> x) @ '', stack: '' @
                            (case st of None \<Rightarrow> [] | Some x \<Rightarrow> x)) [],
                  ErrorCallback (JSObject m st) None,
                  Sleep (pollInterval cfg)]\<rparr>)"
  using assms
  by (simp add: poll_cycle_def and_then_def try_catch_def taskResource_poll_def
        handleUnknownError_object errorHandler_def poll_sleep_def)

lemma poll_cycle_rejected_nullish:
  assumes "poll_resp en (polls s) = Inl e" and "e = JSUndefined \<or> e = JSNull"
  shows "poll_cycle en cfg s =
    (Inl (TypeError_property_of_nullish ''stack''),
     s\<lparr>polls := polls s + 1,
       trace := trace s @ [PollCall (taskDefName cfg) (workerID cfg) (domain cfg)]\<rparr>)"
  using assms
  by (auto simp add: poll_cycle_def and_then_def try_catch_def taskResource_poll_def
        handleUnknownError_nullish)

lemma poll_cycle_no_task:
  assumes "poll_resp en (polls s) = Inr polled"
      and "polled = None \<or> (\<exists>t. polled = Some t \<and> \<not> truthy (taskId t))"
      and "logger_debug_resp en
             (trace s @ [PollCall (taskDefName cfg) (workerID cfg) (domain cfg)])
             (''No tasks for '' @ taskDefName cfg) = Inr ()"
  shows "poll_cycle en cfg s =
    (Inr (), s\<lparr>polls := polls s + 1,
               isPolling := (if stop_req en (cycles s) then False else isPolling s),
               cycles := cycles s + 1,
               trace := trace s @
                 [PollCall (taskDefName cfg) (workerID cfg) (domain cfg),
                  LogDebug (''No tasks for '' @ taskDefName cfg),
                  Sleep (pollInterval cfg)]\<rparr>)"
  using assms
  by (auto simp add: poll_cycle_def and_then_def try_catch_def taskResource_poll_def
        logger_debug_def poll_sleep_def)


text \<open>Whatever the collaborators do, a cycle begins with the poll call.\<close>

lemma poll_cycle_trace:
  "\<exists>evs. trace (snd (poll_cycle en cfg s)) =
     trace s @ PollCall (taskDefName cfg) (workerID cfg) (domain cfg) # evs"
  unfolding poll_cycle_def
proof (intro and_then_starts try_catch_starts and_then_grows)
  show "\<exists>evs. trace (snd (taskResource_poll en cfg s)) =
     trace s @ PollCall (taskDefName cfg) (workerID cfg) (domain cfg) # evs"
    by (simp add: taskResource_poll_def)
next
  fix polled s'
  show "\<exists>evs. trace (snd ((case polled of
          None \<Rightarrow> logger_debug en (''No tasks for '' @ taskDefName cfg)
        | Some t \<Rightarrow> if truthy (taskId t) then executeTask en cfg t
                    else logger_debug en (''No tasks for '' @ taskDefName cfg)) s')) =
        trace s' @ evs"
  proof (cases polled)
    case None
    then show ?thesis by (simp add: logger_debug_def)
  next
    case (Some t)
    show ?thesis
    proof (cases "truthy (taskId t)")
      case True
      with Some executeTask_trace [of en cfg t s'] show ?thesis by auto
    next
      case False
      with Some show ?thesis by (simp add: logger_debug_def)
    qed
  qed
next
  fix e s'
  show "\<exists>evs. trace (snd (handleUnknownError en cfg e s')) = trace s' @ evs"
    by (rule handleUnknownError_grows)
next
  fix e x s'
  show "\<exists>evs. trace (snd (errorHandler en e None s')) = trace s' @ evs"
    by (simp add: errorHandler_def)
next
  fix x s'
  show "\<exists>evs. trace (snd (poll_sleep en cfg s')) = trace s' @ evs"
    by (simp add: poll_sleep_def)
qed

lemma poll_trace: "\<exists>evs. trace (snd (poll en cfg n s)) = trace s @ evs"
proof (induction n arbitrary: s)
  case 0
  show ?case by simp
next
  case (Suc n)
  show ?case
  proof (cases "isPolling s")
    case False
    then show ?thesis by simp
  next
    case True
    obtain c s' where c: "poll_cycle en cfg s = (c, s')" by (cases "poll_cycle en cfg s")
    obtain evs where evs: "trace s' = trace s @ evs"
      using poll_cycle_trace [of en cfg s] c by auto
    show ?thesis
    proof (cases c)
      case (Inl e)
      with True c evs show ?thesis by simp
    next
      case (Inr u)
      obtain evs' where "trace (snd (poll en cfg n s')) = trace s' @ evs'"
        using Suc by blast
      with True c evs Inr show ?thesis by simp
    qed
  qed
qed

lemma poll_begins:
  assumes "isPolling s"
  shows "\<exists>evs. trace (snd (poll en cfg (Suc n) s)) =
     trace s @ PollCall (taskDefName cfg) (workerID cfg) (domain cfg) # evs"
proof -
  obtain c s' where c: "poll_cycle en cfg s = (c, s')" by (cases "poll_cycle en cfg s")
  obtain evs where evs: "trace s' =
      trace s @ PollCall (taskDefName cfg) (workerID cfg) (domain cfg) # evs"
    using poll_cycle_trace [of en cfg s] c by auto
  show ?thesis
  proof (cases c)
    case (Inl e)
    with assms c evs show ?thesis by simp
  next
    case (Inr u)
    obtain evs' where "trace (snd (poll en cfg n s')) = trace s' @ evs'"
      using poll_trace by blast
    with assms c evs Inr show ?thesis by simp
  qed
qed

text \<open>
  With an error callback and a logger that return normally, a cycle completes normally,
  and the loop never raises, as long as \<open>taskResource.poll\<close> does not reject with
  \<open>undefined\<close> or \<open>null\<close>.
\<close>

lemma poll_cycle_task_returns:
  assumes "poll_resp en (polls s) = Inr (Some t)" and "truthy (taskId t)"
      and q1: "\<forall>tr e t. onError_resp en tr e t = Inr ()"
      and q2: "\<forall>tr msg args. logger_error_resp en tr msg args = Inr ()"
      and q3: "\<forall>tr msg. logger_debug_resp en tr msg = Inr ()"
  shows "fst (poll_cycle en cfg s) = Inr ()"
proof -
  let ?s1 = "s\<lparr>polls := polls s + 1,
       trace := trace s @ [PollCall (taskDefName cfg) (workerID cfg) (domain cfg)]\<rparr>"
  have "fst (executeTask en cfg t ?s1) = Inr ()"
    using q1 q2 q3 by (rule executeTask_returns)
  then obtain s2 where s2: "executeTask en cfg t ?s1 = (Inr (), s2)"
    by (cases "executeTask en cfg t ?s1") auto
  show ?thesis
    using assms(1,2) s2
    by (simp add: poll_cycle_def and_then_def try_catch_def taskResource_poll_def poll_sleep_def)
qed

lemma poll_cycle_returns:
  assumes "poll_resp en (polls s) \<noteq> Inl JSUndefined" and "poll_resp en (polls s) \<noteq> Inl JSNull"
      and q1: "\<forall>tr e t. onError_resp en tr e t = Inr ()"
      and q2: "\<forall>tr msg args. logger_error_resp en tr msg args = Inr ()"
      and q3: "\<forall>tr msg. logger_debug_resp en tr msg = Inr ()"
  shows "fst (poll_cycle en cfg s) = Inr ()"
proof (cases "poll_resp en (polls s)")
  case (Inl e)
  with assms(1,2) obtain m st where "e = JSObject m st" by (cases e) auto
  with Inl q1 q2 show ?thesis by (simp add: poll_cycle_rejected_object)
next
  case (Inr polled)
  show ?thesis
  proof (cases "polled = None \<or> (\<exists>t. polled = Some t \<and> \<not> truthy (taskId t))")
    case True
    with Inr q3 show ?thesis by (simp add: poll_cycle_no_task)
  next
    case False
    then obtain t where "polled = Some t" "truthy (taskId t)" by auto
    with Inr poll_cycle_task_returns [of en s t, OF _ _ q1 q2 q3] show ?thesis by blast
  qed
qed

lemma poll_raises_only_on_nullish:
  assumes "\<And>k. poll_resp en k \<noteq> Inl JSUndefined \<and> poll_resp en k \<noteq> Inl JSNull"
      and q1: "\<forall>tr e t. onError_resp en tr e t = Inr ()"
      and q2: "\<forall>tr msg args. logger_error_resp en tr msg args = Inr ()"
      and q3: "\<forall>tr msg. logger_debug_resp en tr msg = Inr ()"
  shows "fst (poll en cfg n s) \<noteq> Raised e"
proof (induction n arbitrary: s)
  case 0
  show ?case by simp
next
  case (Suc n)
  have "fst (poll_cycle en cfg s) = Inr ()"
    using assms(1) q1 q2 q3 by (intro poll_cycle_returns) simp_all
  then obtain s' where "poll_cycle en cfg s = (Inr (), s')"
    by (cases "poll_cycle en cfg s") auto
  with Suc [of s'] show ?case by simp
qed

text \<open>
  C1. No error is to leave the poll loop: the catch of the loop body passes the caught
  value to \<open>handleUnknownError\<close> and to the error callback, and the loop sleeps and goes
  on. When \<open>taskResource.poll\<close> rejects with \<open>undefined\<close>, the \<open>TypeError\<close> that
  \<open>handleUnknownError\<close> raises inside the catch block leaves the loop: the runner's
  \<open>poll\<close> ends with it after the first poll call, with no log line, no call of the error
  callback and no sleep.
\<close>

theorem poll_escapes_on_nullish_rejection:
  "poll (env_poll_rejects JSUndefined) cfg_example (Suc n) (initial\<lparr>isPolling := True\<rparr>) =
     (Raised (TypeError_property_of_nullish ''stack''),
      \<lparr>isPolling = True, trace = [PollCall ''job'' ''worker-1'' None],
       polls = 1, executes = 0, updates = 0, cycles = 0\<rparr>)"
  by (simp add: initial_def env_poll_rejects_def cfg_example_def poll_cycle_rejected_nullish)



text \<open>
  C6. \<open>startPolling\<close> on a runner that is polling raises the error
  \<open>Runner is already started\<close> and leaves the state as it is. On a stopped runner,
  also one stopped by \<open>stopPolling\<close>, it sets \<open>isPolling\<close> and runs the poll loop, whose
  first event is a poll call.
\<close>

theorem startPolling_transitions:
  "(isPolling s \<longrightarrow>
      startPolling en cfg n s = (Raised (new_Error ''Runner is already started''), s)) \<and>
   (\<not> isPolling s \<longrightarrow>
      startPolling en cfg n s = poll en cfg n (s\<lparr>isPolling := True\<rparr>) \<and>
      (\<exists>evs. trace (snd (startPolling en cfg (Suc n) s)) =
         trace s @ PollCall (taskDefName cfg) (workerID cfg) (domain cfg) # evs)) \<and>
   startPolling en cfg n (stopPolling s) = poll en cfg n (s\<lparr>isPolling := True\<rparr>)"
proof (intro conjI impI)
  assume "\<not> isPolling s"
  then show "\<exists>evs. trace (snd (startPolling en cfg (Suc n) s)) =
         trace s @ PollCall (taskDefName cfg) (workerID cfg) (domain cfg) # evs"
    using poll_begins [of "s\<lparr>isPolling := True\<rparr>" en cfg n]
    by (simp add: startPolling_def)
qed (simp_all add: startPolling_def stopPolling_def)

theorem startPolling_transitions_witness:
  "isPolling (initial\<lparr>isPolling := True\<rparr>) \<and>
   startPolling env_idle cfg_example (Suc (Suc 0)) (initial\<lparr>isPolling := True\<rparr>) =
     (Raised (JSObject (Some ''Runner is already started'')
                       (Some ''Error: Runner is already started'')),
      initial\<lparr>isPolling := True\<rparr>) \<and>
   \<not> isPolling initial \<and>
   startPolling env_idle cfg_example (Suc (Suc 0)) initial =
     poll env_idle cfg_example (Suc (Suc 0)) (initial\<lparr>isPolling := True\<rparr>) \<and>
   startPolling env_idle cfg_example (Suc (Suc 0)) (stopPolling (initial\<lparr>isPolling := True\<rparr>)) =
     (Returned,
      \<lparr>isPolling = False,
       trace = [PollCall ''job'' ''worker-1'' None, LogDebug ''No tasks for job'', Sleep 100,
                PollCall ''job'' ''worker-1'' None, LogDebug ''No tasks for job'', Sleep 100],
       polls = 2, executes = 0, updates = 0, cycles = 2\<rparr>)"
  using startPolling_transitions [of "initial\<lparr>isPolling := True\<rparr>" env_idle cfg_example "Suc (Suc 0)"]
    startPolling_transitions [of initial env_idle cfg_example "Suc (Suc 0)"]
  by (simp add: initial_def env_idle_def cfg_example_def new_Error_def task_t1_def
        poll_cycle_no_task)

end
